theory Spec2Isabelle
  imports Main "HOL-Library.Sublist"
begin

section \<open>JavaScript values and string primitives used by main.js\<close>

text \<open>
  The values that main.js hands to the logger or receives as a promise rejection:
  \<open>undefined\<close>, \<open>null\<close>, a string primitive, or an \<open>Error\<close> object carrying its
  \<open>message\<close>.
\<close>

datatype js_value = Undefined | Null | Str string | ErrorObject string

datatype js_error = TypeError

text \<open>
  \<open>cause.message\<close>: reading a property of \<open>undefined\<close> or \<open>null\<close> throws a TypeError,
  a string primitive has no such property (the read gives \<open>undefined\<close>), an Error object
  gives its message.
\<close>

fun get_message :: "js_value \<Rightarrow> js_error + js_value" where
  "get_message Undefined = Inl TypeError"
| "get_message Null = Inl TypeError"
| "get_message (Str s) = Inr Undefined"
| "get_message (ErrorObject m) = Inr (Str m)"

text \<open>\<open>s.substr(n)\<close> with one non-negative argument: the string from index \<open>n\<close> on,
  empty when \<open>n\<close> is past the end.\<close>

definition substr :: "string \<Rightarrow> nat \<Rightarrow> string" where
  "substr s n = drop n s"

text \<open>\<open>s.split(sep)\<close> for a one-character separator: never empty, the empty string
  splits into one empty segment.\<close>

fun split :: "char \<Rightarrow> string \<Rightarrow> string list" where
  "split sep [] = [[]]"
| "split sep (c # cs) =
     (if c = sep then [] # split sep cs
      else (case split sep cs of
              [] \<Rightarrow> [[c]]
            | p # ps \<Rightarrow> (c # p) # ps))"

text \<open>\<open>xs[i]\<close>: an index past the end reads \<open>undefined\<close> (here \<open>None\<close>), it does not throw.\<close>

definition nth_js :: "'a list \<Rightarrow> nat \<Rightarrow> 'a option" where
  "nth_js xs i = (if i < length xs then Some (xs ! i) else None)"

text \<open>String concatenation with a value that may be \<open>undefined\<close>: \<open>'a' + undefined\<close>
  is \<open>'aundefined'\<close>.\<close>

definition to_string :: "string option \<Rightarrow> string" where
  "to_string v = (case v of None \<Rightarrow> ''undefined'' | Some s \<Rightarrow> s)"

text \<open>\<open>s.indexOf(pat)\<close>: the first index at which \<open>pat\<close> occurs in \<open>s\<close>, or \<open>-1\<close>.\<close>

fun indexOf_from :: "nat \<Rightarrow> string \<Rightarrow> string \<Rightarrow> int" where
  "indexOf_from i [] pat = (if pat = [] then int i else -1)"
| "indexOf_from i (c # cs) pat =
     (if prefix pat (c # cs) then int i else indexOf_from (Suc i) cs pat)"

definition indexOf :: "string \<Rightarrow> string \<Rightarrow> int" where
  "indexOf s pat = indexOf_from 0 s pat"

section \<open>Effects\<close>

text \<open>A browser window is known by its id.\<close>

type_synonym window = nat

text \<open>The configuration object that \<open>startupOptions.getOptions()\<close> returns: its settings
  by name.\<close>

type_synonym options = "(string \<times> js_value) list"

text \<open>
  Every call that main.js makes on Electron, on the logger or on a collaborator is an
  entry of the trace, in the order the calls are made.
\<close>

datatype effect =
    LogInfo "js_value list"
  | LogError "js_value list"
  | SetAsDefaultProtocolClient string
  | AppOn string
  | AppQuit
  | PreventDefault
  | NewAppOptions
  | AppOptionsParse
  | AppOptionsGetOptions
  | NewArcMainMenu
  | NewArcWindowsManager options
  | NewUpdateStatus
  | NewSessionManager
  | NewRemoteApi
  | NewAppPrompts
  | NewDriveExport
  | MenuOn string
  | MenuBuild
  | NewAppDefaults
  | PrepareEnvironment
  | ArcIdentityListen
  | WmListen
  | WmOpen "string option"
  | WmOpenTaskManager
  | PromptsListen
  | UsListen
  | UsStart
  | GdriveListen
  | SmStart
  | WebContentsSend window string string
  | WebContentsGetURL window
  | Require string
  | HelpWith string
  | GetService window
  | NewContentSearchService window
  | SrvIsOpened window
  | SrvFocus window
  | SrvOpen window
  | TestInterface
  | SetGlobalArcApp
  | IpcMainOn string
  | NewThemesEditor nat string
  | EditorRun

section \<open>The open-url handler of \<open>_registerProtocols\<close>\<close>

definition openUrlHandler :: "string \<Rightarrow> effect list" where
  "openUrlHandler url =
     [LogInfo [Str ''arc-file protocol handles '', Str url], PreventDefault] @
     (let fileData = substr url 11;
          parts = split CHR ''/'' fileData
      in if nth_js parts 0 = Some ''drive''
         then [WmOpen (Some (''/request/drive/'' @ to_string (nth_js parts 1) @ ''/''
                 @ to_string (nth_js parts 2)))]
         else [])"

text \<open>The calls of \<open>wm.open\<close> in a trace, each with its argument.\<close>

fun wm_open_calls :: "effect list \<Rightarrow> string option list" where
  "wm_open_calls [] = []"
| "wm_open_calls (WmOpen p # es) = p # wm_open_calls es"
| "wm_open_calls (e # es) = wm_open_calls es"

section \<open>The ready handler\<close>

text \<open>The state of the promise that \<open>prepareEnvironment()\<close> returns: fulfilled, rejected
  with the value it was rejected with, or never settled.\<close>

datatype promise = Fulfilled | Rejected js_value | Pending

text \<open>What becomes of the promise that \<open>_readyHandler\<close> returns.\<close>

datatype ready_result = ReadyDone | ReadyFailed js_error | ReadyPending

text \<open>\<open>isDebug\<close>: \<open>!!process.argv.find((i) => i.indexOf('--inspect') !== -1)\<close>. \<open>find\<close>
  gives the first such argument or \<open>undefined\<close>; \<open>!!\<close> of a string is false only for the
  empty string.\<close>

definition isDebug :: "string list \<Rightarrow> bool" where
  "isDebug argv =
     (case List.find (\<lambda>i. indexOf i ''--inspect'' \<noteq> - 1) argv of
        None \<Rightarrow> False
      | Some i \<Rightarrow> i \<noteq> [])"

text \<open>The callback given to \<open>.catch\<close>: it throws when \<open>cause.message\<close> cannot be read.\<close>

definition ready_catch :: "js_value \<Rightarrow> js_error + effect list" where
  "ready_catch cause =
     (case get_message cause of
        Inl err \<Rightarrow> Inl err
      | Inr msg \<Rightarrow>
          Inr [LogError [Str ''Unable to prepare the environment.'', msg],
               LogError [cause]])"

text \<open>The callback given to \<open>.then\<close>.\<close>

definition ready_then :: "string list \<Rightarrow> effect list" where
  "ready_then argv =
     [LogInfo [Str ''Application is now ready''],
      ArcIdentityListen, WmListen, PromptsListen, UsListen, GdriveListen,
      WmOpen None] @
     (if \<not> isDebug argv then [UsStart] else []) @
     [MenuBuild, SmStart]"

text \<open>
  \<open>_readyHandler\<close>: \<open>prepareEnvironment().catch(...).then(...)\<close>. The \<open>.then\<close> callback runs
  once the promise before it is fulfilled: after \<open>prepareEnvironment\<close> fulfilled, or after
  it rejected and the \<open>.catch\<close> callback returned. It does not run while the promise is
  pending, nor when the \<open>.catch\<close> callback itself threw.
\<close>

definition readyHandler :: "string list \<Rightarrow> promise \<Rightarrow> effect list \<times> ready_result" where
  "readyHandler argv prepared =
     (case prepared of
        Pending \<Rightarrow> ([NewAppDefaults, PrepareEnvironment], ReadyPending)
      | Fulfilled \<Rightarrow> ([NewAppDefaults, PrepareEnvironment] @ ready_then argv, ReadyDone)
      | Rejected cause \<Rightarrow>
          (case ready_catch cause of
             Inl err \<Rightarrow> ([NewAppDefaults, PrepareEnvironment], ReadyFailed err)
           | Inr logged \<Rightarrow>
               ([NewAppDefaults, PrepareEnvironment] @ logged @ ready_then argv, ReadyDone)))"

text \<open>
  The two turns of \<open>_readyHandler\<close>. The call itself makes the \<open>AppDefaults\<close> and calls
  \<open>prepareEnvironment()\<close>, and returns. The callbacks run in a later turn, when the
  promise has settled: \<open>ready_callbacks\<close> is what they call, and \<open>then_runs\<close> says whether
  the \<open>.then\<close> callback is among them. Between the two turns other listeners may run.
\<close>

definition ready_call :: "effect list" where
  "ready_call = [NewAppDefaults, PrepareEnvironment]"

definition ready_callbacks :: "string list \<Rightarrow> promise \<Rightarrow> effect list" where
  "ready_callbacks argv prepared =
     (case prepared of
        Pending \<Rightarrow> []
      | Fulfilled \<Rightarrow> ready_then argv
      | Rejected cause \<Rightarrow>
          (case ready_catch cause of
             Inl err \<Rightarrow> []
           | Inr logged \<Rightarrow> logged @ ready_then argv))"

definition then_runs :: "promise \<Rightarrow> bool" where
  "then_runs prepared =
     (case prepared of
        Pending \<Rightarrow> False
      | Fulfilled \<Rightarrow> True
      | Rejected cause \<Rightarrow>
          (case ready_catch cause of Inl err \<Rightarrow> False | Inr logged \<Rightarrow> True))"

text \<open>The five \<open>listen()\<close> calls of the ready sequence.\<close>

definition listen_calls :: "effect list" where
  "listen_calls = [ArcIdentityListen, WmListen, PromptsListen, UsListen, GdriveListen]"

text \<open>Every occurrence of \<open>a\<close> in the trace stands before every occurrence of \<open>b\<close>.\<close>

definition all_before :: "'a \<Rightarrow> 'a \<Rightarrow> 'a list \<Rightarrow> bool" where
  "all_before a b t =
     (\<forall>i \<in> set [0..<length t]. \<forall>j \<in> set [0..<length t]. t ! i = a \<and> t ! j = b \<longrightarrow> i < j)"

section \<open>Window-all-closed and activate\<close>

definition allClosedHandler :: "string \<Rightarrow> effect list" where
  "allClosedHandler platform = (if platform \<noteq> ''darwin'' then [AppQuit] else [])"

text \<open>\<open>hasWindow\<close> is the value of \<open>this.wm.hasWindow\<close> when the handler runs.\<close>

definition activateHandler :: "bool \<Rightarrow> effect list" where
  "activateHandler hasWindow = (if \<not> hasWindow then [WmOpen None] else [])"

section \<open>Menu actions\<close>

text \<open>
  What the menu handler reads of the world and may change: the URL each window has loaded
  (\<open>win.webContents.getURL()\<close>) and the registry of content search services, which
  holds for each window whether it has a service and, if so, whether that service is
  opened.
\<close>

record world =
  url_of :: "window \<Rightarrow> string"
  services :: "window \<Rightarrow> bool option"

text \<open>
  Modelled from the spec: the Content Search Service (./scripts/main/search-service) is
  not among the sources. The spec calls it a per-window singleton factory whose instance
  exposes \<open>isOpened()\<close>, \<open>open()\<close> and \<open>focus()\<close>, kept in a per-window registry. The
  registry maps a window to its instance, and an instance is its opened flag.
  \<open>getService(win)\<close> looks the window up.
\<close>

definition getService :: "world \<Rightarrow> window \<Rightarrow> bool option" where
  "getService w win = services w win"

text \<open>Modelled from the spec: \<open>new ContentSearchService(win)\<close> makes the instance of the
  window, not yet opened.\<close>

definition newContentSearchService :: "world \<Rightarrow> window \<Rightarrow> world" where
  "newContentSearchService w win = w\<lparr>services := (services w)(win \<mapsto> False)\<rparr>"

text \<open>Modelled from the spec: \<open>srv.open()\<close> opens the instance of the window, after which
  \<open>isOpened()\<close> is true. \<open>srv.focus()\<close> changes nothing of the registry.\<close>

definition srvOpen :: "world \<Rightarrow> window \<Rightarrow> world" where
  "srvOpen w win = w\<lparr>services := (services w)(win \<mapsto> True)\<rparr>"

text \<open>\<open>_handleApplicationAction\<close>: the \<open>switch\<close> over the command, case by case in the
  order of the source; a command that matches no case does nothing.\<close>

definition handleApplicationAction :: "world \<Rightarrow> string \<Rightarrow> window \<Rightarrow> world \<times> effect list" where
  "handleApplicationAction w action win =
     (let windowCommand = ''command'' in
      if action = ''quit'' then (w, [AppQuit])
      else if action \<in> set [''open-saved'', ''open-history'', ''open-drive'',
                ''open-messages'', ''show-settings'', ''about'', ''open-license'',
                ''import-data'', ''export-data'', ''login-external-webservice'',
                ''open-cookie-manager'', ''open-hosts-editor'', ''open-themes'']
        then (w, [WebContentsSend win windowCommand action])
      else if action = ''new-window'' then (w, [WmOpen None])
      else if action \<in> set [''open-privacy-policy'', ''open-documentation'', ''open-faq'',
                ''open-discussions'', ''report-issue'', ''search-issues'',
                ''web-session-help'']
        then (w, [Require ''./scripts/main/help-manager'', HelpWith action])
      else if action = ''task-manager'' then (w, [WmOpenTaskManager])
      else if action = ''find'' then
        (if indexOf (url_of w win) ''search-bar'' \<noteq> - 1 then (w, [WebContentsGetURL win])
         else (case getService w win of
                 Some opened \<Rightarrow>
                   if opened
                   then (w, [WebContentsGetURL win, GetService win, SrvIsOpened win,
                             SrvFocus win])
                   else (srvOpen w win,
                         [WebContentsGetURL win, GetService win, SrvIsOpened win,
                          SrvOpen win])
               | None \<Rightarrow>
                   (srvOpen (newContentSearchService w win) win,
                    [WebContentsGetURL win, GetService win,
                     NewContentSearchService win, SrvOpen win])))
      else (w, []))"

text \<open>The case labels of the \<open>switch\<close> in \<open>_handleApplicationAction\<close>.\<close>

definition application_action_table :: "string list" where
  "application_action_table =
     [''quit'',
      ''open-saved'', ''open-history'', ''open-drive'', ''open-messages'',
      ''show-settings'', ''about'', ''open-license'', ''import-data'', ''export-data'',
      ''login-external-webservice'', ''open-cookie-manager'', ''open-hosts-editor'',
      ''open-themes'',
      ''new-window'',
      ''open-privacy-policy'', ''open-documentation'', ''open-faq'', ''open-discussions'',
      ''report-issue'', ''search-issues'', ''web-session-help'',
      ''task-manager'',
      ''find'']"

text \<open>\<open>_menuHandler\<close>.\<close>

definition menuHandler :: "world \<Rightarrow> string \<Rightarrow> window \<Rightarrow> world \<times> effect list" where
  "menuHandler w action win =
     (if indexOf action ''application'' = 0
      then handleApplicationAction w (substr action 12) win
      else if indexOf action ''request'' = 0
      then (w, [WebContentsSend win ''request-action'' (substr action 8)])
      else (w, []))"

text \<open>The spec's glossary: the namespace of an action is the substring before the first
  segment marker, the dash of \<open><namespace>-<command>\<close>.\<close>

definition spec_namespace :: "string \<Rightarrow> string" where
  "spec_namespace action = takeWhile (\<lambda>c. c \<noteq> CHR ''-'') action"

section \<open>The module: construction, wiring and the events it answers\<close>

text \<open>What the module reads of its process.\<close>

record process_env =
  argv :: "string list"
  platform :: string
  node_env :: "string option"

text \<open>
  The constructor of \<open>Arc\<close>, with \<open>_registerProtocols\<close>, \<open>_processArguments\<close> and
  \<open>_listenMenu\<close> in the place of their calls. \<open>AppOptions\<close> (./scripts/main/app-options)
  is not among the sources: what its \<open>parse()\<close> makes of the arguments of the process is
  the parameter \<open>parseOptions\<close>, and \<open>parseOptions args\<close> is the object that
  \<open>getOptions()\<close> then returns and the window manager is constructed with.
\<close>

definition arc_constructor :: "(string list \<Rightarrow> options) \<Rightarrow> string list \<Rightarrow> effect list" where
  "arc_constructor parseOptions args =
     [LogInfo [Str ''Registering arc-file protocol''],
      SetAsDefaultProtocolClient ''arc-file'',
      AppOn ''open-url'',
      NewAppOptions, AppOptionsParse,
      NewArcMainMenu,
      AppOptionsGetOptions, NewArcWindowsManager (parseOptions args),
      NewUpdateStatus, NewSessionManager, NewRemoteApi, NewAppPrompts, NewDriveExport,
      MenuOn ''menu-action'']"

definition attachListeners :: "effect list" where
  "attachListeners = [AppOn ''ready'', AppOn ''window-all-closed'', AppOn ''activate'']"

text \<open>The statements of the module, from \<open>new Arc()\<close> to the registration of the
  theme-editor listener.\<close>

definition module_load :: "(string list \<Rightarrow> options) \<Rightarrow> process_env \<Rightarrow> effect list" where
  "module_load parseOptions env =
     arc_constructor parseOptions (argv env) @ attachListeners @
     (if node_env env = Some ''test''
      then [Require ''./scripts/main/test-interface'', TestInterface] else []) @
     (if isDebug (argv env) then [SetGlobalArcApp] else []) @
     [IpcMainOn ''open-theme-editor'']"

text \<open>The listener of \<open>open-theme-editor\<close>; \<open>sender\<close> is \<open>event.sender.id\<close>.\<close>

definition openThemeEditorHandler :: "nat \<Rightarrow> string \<Rightarrow> effect list" where
  "openThemeEditorHandler sender data =
     [LogInfo [Str ''Starting theme editor''],
      Require ''./scripts/main/themes-editor.js'',
      NewThemesEditor sender data, EditorRun]"

text \<open>
  The turns of the event loop in which code of the module runs: an event the module has
  registered a listener for, with what the listener is given or reads when it runs, or
  the settling of a promise of \<open>prepareEnvironment()\<close>, with what it settled to. \<open>Ready\<close>
  is the turn of the \<open>ready\<close> event, \<open>PrepareSettled\<close> the later turn of the callbacks of
  \<open>_readyHandler\<close>; a promise that never settles has no such turn.
\<close>

datatype os_event =
    Ready
  | PrepareSettled promise
  | OpenUrl string
  | WindowAllClosed
  | Activate bool
  | MenuAction string window
  | OpenThemeEditor nat string

fun handle_event :: "process_env \<Rightarrow> world \<Rightarrow> os_event \<Rightarrow> world \<times> effect list" where
  "handle_event env w Ready = (w, ready_call)"
| "handle_event env w (PrepareSettled prepared) = (w, ready_callbacks (argv env) prepared)"
| "handle_event env w (OpenUrl url) = (w, openUrlHandler url)"
| "handle_event env w WindowAllClosed = (w, allClosedHandler (platform env))"
| "handle_event env w (Activate hasWindow) = (w, activateHandler hasWindow)"
| "handle_event env w (MenuAction action win) = menuHandler w action win"
| "handle_event env w (OpenThemeEditor sender data) = (w, openThemeEditorHandler sender data)"

text \<open>The turns run to completion one after the other, in any order the event loop takes
  them, each on the world the one before it left.\<close>

fun run :: "process_env \<Rightarrow> world \<Rightarrow> os_event list \<Rightarrow> world \<times> effect list" where
  "run env w [] = (w, [])"
| "run env w (e # es) =
     (case handle_event env w e of
        (w', t) \<Rightarrow> (case run env w' es of (w'', t') \<Rightarrow> (w'', t @ t')))"

text \<open>The whole program: the module is loaded, then the turns are taken.\<close>

definition program ::
  "(string list \<Rightarrow> options) \<Rightarrow> process_env \<Rightarrow> world \<Rightarrow> os_event list \<Rightarrow> world \<times> effect list"
where
  "program parseOptions env w es =
     (case run env w es of (w', t) \<Rightarrow> (w', module_load parseOptions env @ t))"

text \<open>The number of turns in which the \<open>.then\<close> callback of \<open>_readyHandler\<close> runs.\<close>

fun ready_sequences :: "os_event list \<Rightarrow> nat" where
  "ready_sequences [] = 0"
| "ready_sequences (PrepareSettled prepared # es) =
     (if then_runs prepared then 1 else 0) + ready_sequences es"
| "ready_sequences (e # es) = ready_sequences es"

section \<open>Example processes\<close>

text \<open>A process started under the inspector and one started without, on the same
  platform; a startup option parser that knows the one flag \<open>--dev\<close>; a world in which no
  window has a search service; and turns of the event loop in which an open-url event
  arrives between the call of \<open>prepareEnvironment()\<close> and its callbacks.\<close>

abbreviation inspected_process :: process_env where
  "inspected_process \<equiv>
     \<lparr>argv = [''electron'', ''--inspect=9229''], platform = ''linux'', node_env = None\<rparr>"

abbreviation plain_process :: process_env where
  "plain_process \<equiv> \<lparr>argv = [''electron''], platform = ''linux'', node_env = None\<rparr>"

abbreviation dev_parser :: "string list \<Rightarrow> options" where
  "dev_parser \<equiv> (\<lambda>args. if ''--dev'' \<in> set args then [(''dev'', Str ''true'')] else [])"

abbreviation app_world :: world where
  "app_world \<equiv> \<lparr>url_of = (\<lambda>_. ''file:///app.html''), services = (\<lambda>_. None)\<rparr>"

abbreviation interleaved_turns :: "os_event list" where
  "interleaved_turns \<equiv>
     [Ready, OpenUrl ''arc-file://drive/open/abc123'', PrepareSettled Fulfilled,
      MenuAction ''application-find'' 7, WindowAllClosed]"

section \<open>Facts about the string primitives and the ordering of a trace\<close>

lemma split_not_Nil: "split sep s \<noteq> []"
  by (induction s) (auto split: list.splits)

lemma indexOf_from_ge: "indexOf_from i s pat = - 1 \<or> int i \<le> indexOf_from i s pat"
  by (induction i s pat rule: indexOf_from.induct) auto

text \<open>\<open>s.indexOf(pat) === 0\<close> says that \<open>s\<close> begins with \<open>pat\<close>.\<close>

lemma indexOf_zero_iff: "indexOf s pat = 0 \<longleftrightarrow> prefix pat s"
proof (cases s)
  case Nil
  then show ?thesis by (simp add: indexOf_def)
next
  case (Cons c cs)
  have "indexOf_from (Suc 0) cs pat \<noteq> 0"
    using indexOf_from_ge [of "Suc 0" cs pat] by auto
  with Cons show ?thesis by (simp add: indexOf_def)
qed

lemma all_before_nth:
  "all_before a b t \<longleftrightarrow> (\<forall>i<length t. \<forall>j<length t. t ! i = a \<and> t ! j = b \<longrightarrow> i < j)"
  unfolding all_before_def by auto

lemma all_before_Nil: "all_before a b []"
  by (simp add: all_before_def)

lemma all_before_Cons:
  "all_before a b (x # t) \<longleftrightarrow> (x = b \<longrightarrow> x \<noteq> a \<and> a \<notin> set t) \<and> all_before a b t"
proof
  assume "all_before a b (x # t)"
  then have L: "\<And>i j. i < Suc (length t) \<Longrightarrow> j < Suc (length t) \<Longrightarrow>
      (x # t) ! i = a \<Longrightarrow> (x # t) ! j = b \<Longrightarrow> i < j"
    unfolding all_before_nth by simp
  have first: "x \<noteq> a" if "x = b"
    using L [of 0 0] that by auto
  have later: "a \<notin> set t" if "x = b"
  proof
    assume "a \<in> set t"
    then obtain i where "i < length t" "t ! i = a"
      by (auto simp add: in_set_conv_nth)
    with L [of "Suc i" 0] that show False by simp
  qed
  have rest: "all_before a b t"
    unfolding all_before_nth
  proof (intro allI impI)
    fix i j
    assume "i < length t" "j < length t" "t ! i = a \<and> t ! j = b"
    with L [of "Suc i" "Suc j"] show "i < j" by simp
  qed
  from first later rest
  show "(x = b \<longrightarrow> x \<noteq> a \<and> a \<notin> set t) \<and> all_before a b t" by blast
next
  assume R: "(x = b \<longrightarrow> x \<noteq> a \<and> a \<notin> set t) \<and> all_before a b t"
  show "all_before a b (x # t)"
    unfolding all_before_nth
  proof (intro allI impI)
    fix i j
    assume i: "i < length (x # t)" and j: "j < length (x # t)"
      and ab: "(x # t) ! i = a \<and> (x # t) ! j = b"
    show "i < j"
    proof (cases j)
      case 0
      with ab have xb: "x = b" by simp
      with R have "x \<noteq> a" "a \<notin> set t" by simp_all
      with ab i show ?thesis by (cases i) auto
    next
      case (Suc j')
      show ?thesis
      proof (cases i)
        case 0
        with Suc show ?thesis by simp
      next
        case (Suc i')
        from R have "all_before a b t" by simp
        with i j ab Suc \<open>j = Suc j'\<close> show ?thesis
          unfolding all_before_nth by auto
      qed
    qed
  qed
qed

section \<open>Facts about the handlers\<close>

lemma find_search_ui:
  "indexOf (url_of w win) ''search-bar'' \<noteq> - 1 \<Longrightarrow>
   handleApplicationAction w ''find'' win = (w, [WebContentsGetURL win])"
  by (simp add: handleApplicationAction_def)

lemma find_opened:
  "indexOf (url_of w win) ''search-bar'' = - 1 \<Longrightarrow> getService w win = Some True \<Longrightarrow>
   handleApplicationAction w ''find'' win =
     (w, [WebContentsGetURL win, GetService win, SrvIsOpened win, SrvFocus win])"
  by (simp add: handleApplicationAction_def)

lemma find_closed:
  "indexOf (url_of w win) ''search-bar'' = - 1 \<Longrightarrow> getService w win = Some False \<Longrightarrow>
   handleApplicationAction w ''find'' win =
     (srvOpen w win, [WebContentsGetURL win, GetService win, SrvIsOpened win, SrvOpen win])"
  by (simp add: handleApplicationAction_def)

lemma find_absent:
  "indexOf (url_of w win) ''search-bar'' = - 1 \<Longrightarrow> getService w win = None \<Longrightarrow>
   handleApplicationAction w ''find'' win =
     (srvOpen (newContentSearchService w win) win,
      [WebContentsGetURL win, GetService win, NewContentSearchService win, SrvOpen win])"
  by (simp add: handleApplicationAction_def)

lemma srvOpen_reads:
  "url_of (srvOpen w win) = url_of w" "getService (srvOpen w win) win = Some True"
  "url_of (newContentSearchService w win) = url_of w"
  by (simp_all add: srvOpen_def newContentSearchService_def getService_def)

lemma menu_find: "menuHandler w ''application-find'' win = handleApplicationAction w ''find'' win"
  by (simp add: menuHandler_def indexOf_zero_iff substr_def)

lemma find_twice:
  assumes "indexOf (url_of w win) ''search-bar'' = - 1"
  shows "count_list (snd (run env w [MenuAction ''application-find'' win,
                                     MenuAction ''application-find'' win]))
           (NewContentSearchService win) = (if getService w win = None then 1 else 0)
       \<and> (\<exists>t. snd (run env w [MenuAction ''application-find'' win,
                                MenuAction ''application-find'' win]) =
               t @ [WebContentsGetURL win, GetService win, SrvIsOpened win, SrvFocus win])"
proof (cases "getService w win")
  case None
  with assms show ?thesis
    by (simp add: menu_find find_absent find_opened srvOpen_reads)
next
  case (Some opened)
  with assms show ?thesis
    by (cases opened) (simp_all add: menu_find find_closed find_opened srvOpen_reads)
qed

text \<open>The trace of \<open>_readyHandler\<close> is that of its two turns.\<close>

lemma readyHandler_turns:
  "fst (readyHandler args prepared) = ready_call @ ready_callbacks args prepared"
  by (simp add: readyHandler_def ready_call_def ready_callbacks_def
      split: promise.splits sum.splits)

lemma ready_then_frame:
  "filter (\<lambda>e. e \<noteq> UsStart \<and> e \<noteq> SetGlobalArcApp) (ready_then args) = filter (\<lambda>e. e \<noteq> UsStart \<and> e \<noteq> SetGlobalArcApp) (ready_then args')"
  by (simp add: ready_then_def)

lemma ready_then_same_debug:
  "isDebug args = isDebug args' \<Longrightarrow> ready_then args = ready_then args'"
  by (simp add: ready_then_def)

lemma ready_then_count:
  "count_list (ready_then args) UsStart = (if isDebug args then 0 else 1)"
  "count_list (ready_then args) SetGlobalArcApp = 0"
  by (simp_all add: ready_then_def)

lemma ready_catch_logs:
  "ready_catch cause = Inr logged \<Longrightarrow>
   filter (\<lambda>e. e \<noteq> UsStart \<and> e \<noteq> SetGlobalArcApp) logged = logged \<and> count_list logged UsStart = 0 \<and>
   count_list logged SetGlobalArcApp = 0"
  by (cases cause) (auto simp add: ready_catch_def)

lemma ready_callbacks_frame:
  "filter (\<lambda>e. e \<noteq> UsStart \<and> e \<noteq> SetGlobalArcApp) (ready_callbacks args prepared) = filter (\<lambda>e. e \<noteq> UsStart \<and> e \<noteq> SetGlobalArcApp) (ready_callbacks args' prepared)"
  using ready_then_frame [of args args']
  by (simp add: ready_callbacks_def split: promise.splits sum.splits)

lemma ready_callbacks_same_debug:
  "isDebug args = isDebug args' \<Longrightarrow>
   ready_callbacks args prepared = ready_callbacks args' prepared"
  using ready_then_same_debug [of args args']
  by (simp add: ready_callbacks_def split: promise.splits sum.splits)

lemma ready_callbacks_count:
  "count_list (ready_callbacks args prepared) UsStart =
     (if then_runs prepared \<and> \<not> isDebug args then 1 else 0)"
  "count_list (ready_callbacks args prepared) SetGlobalArcApp = 0"
  using ready_catch_logs
  by (auto simp add: ready_callbacks_def then_runs_def ready_then_count
      split: promise.splits sum.splits)

lemma menuHandler_no_gated:
  "count_list (snd (menuHandler w action win)) UsStart = 0 \<and>
   count_list (snd (menuHandler w action win)) SetGlobalArcApp = 0"
  by (simp add: menuHandler_def handleApplicationAction_def split: option.splits)

lemma handle_event_frame:
  assumes "platform env = platform env'"
  shows "fst (handle_event env w e) = fst (handle_event env' w e)"
    and "filter (\<lambda>e. e \<noteq> UsStart \<and> e \<noteq> SetGlobalArcApp) (snd (handle_event env w e)) = filter (\<lambda>e. e \<noteq> UsStart \<and> e \<noteq> SetGlobalArcApp) (snd (handle_event env' w e))"
  using assms ready_callbacks_frame [of "argv env" _ "argv env'"]
  by (cases e; simp)+

lemma handle_event_same_debug:
  assumes "platform env = platform env'" "isDebug (argv env) = isDebug (argv env')"
  shows "handle_event env w e = handle_event env' w e"
  using assms ready_callbacks_same_debug [of "argv env" "argv env'"]
  by (cases e) simp_all

lemma handle_event_count:
  "count_list (snd (handle_event env w e)) UsStart =
     (if isDebug (argv env) then 0 else ready_sequences [e])"
  "count_list (snd (handle_event env w e)) SetGlobalArcApp = 0"
  using menuHandler_no_gated
  by (cases e; simp add: ready_callbacks_count ready_call_def openUrlHandler_def
      allClosedHandler_def activateHandler_def openThemeEditorHandler_def Let_def)+

lemma ready_sequences_Cons:
  "ready_sequences (e # es) = ready_sequences [e] + ready_sequences es"
  by (cases e) simp_all

lemma run_frame:
  assumes "platform env = platform env'"
  shows "fst (run env w es) = fst (run env' w es) \<and>
         filter (\<lambda>e. e \<noteq> UsStart \<and> e \<noteq> SetGlobalArcApp) (snd (run env w es)) = filter (\<lambda>e. e \<noteq> UsStart \<and> e \<noteq> SetGlobalArcApp) (snd (run env' w es))"
proof (induction es arbitrary: w)
  case Nil
  show ?case by simp
next
  case (Cons e es)
  obtain w1 t1 where h: "handle_event env w e = (w1, t1)"
    by (cases "handle_event env w e")
  obtain w1' t1' where h': "handle_event env' w e = (w1', t1')"
    by (cases "handle_event env' w e")
  from handle_event_frame [OF assms, of w e] h h'
  have same: "w1' = w1" "filter (\<lambda>e. e \<noteq> UsStart \<and> e \<noteq> SetGlobalArcApp) t1 = filter (\<lambda>e. e \<noteq> UsStart \<and> e \<noteq> SetGlobalArcApp) t1'"
    by simp_all
  from Cons.IH [of w1] h h' same show ?case
    by (simp add: split_beta)
qed

lemma run_same_debug:
  assumes "platform env = platform env'" "isDebug (argv env) = isDebug (argv env')"
  shows "run env w es = run env' w es"
  by (induction es arbitrary: w) (simp_all add: handle_event_same_debug [OF assms])

lemma run_count:
  "count_list (snd (run env w es)) UsStart =
     (if isDebug (argv env) then 0 else ready_sequences es) \<and>
   count_list (snd (run env w es)) SetGlobalArcApp = 0"
proof (induction es arbitrary: w)
  case Nil
  show ?case by simp
next
  case (Cons e es)
  obtain w1 t1 where h: "handle_event env w e = (w1, t1)"
    by (cases "handle_event env w e")
  from handle_event_count [of env w e] h Cons.IH [of w1]
    ready_sequences_Cons [of e es]
  show ?case
    by (simp add: split_beta)
qed

lemma module_load_frame:
  "node_env env = node_env env' \<Longrightarrow> parseOptions (argv env) = parseOptions (argv env') \<Longrightarrow>
   filter (\<lambda>e. e \<noteq> UsStart \<and> e \<noteq> SetGlobalArcApp) (module_load parseOptions env) = filter (\<lambda>e. e \<noteq> UsStart \<and> e \<noteq> SetGlobalArcApp) (module_load parseOptions env')"
  by (simp add: module_load_def arc_constructor_def attachListeners_def)

lemma module_load_same_debug:
  "node_env env = node_env env' \<Longrightarrow> parseOptions (argv env) = parseOptions (argv env') \<Longrightarrow>
   isDebug (argv env) = isDebug (argv env') \<Longrightarrow>
   module_load parseOptions env = module_load parseOptions env'"
  by (simp add: module_load_def arc_constructor_def)

lemma module_load_count:
  "count_list (module_load parseOptions env) UsStart = 0"
  "count_list (module_load parseOptions env) SetGlobalArcApp =
     (if isDebug (argv env) then 1 else 0)"
  by (simp_all add: module_load_def arc_constructor_def attachListeners_def)

lemma isDebug_ex1: "isDebug [''electron'', ''--inspect=9229'']"
  by (simp add: isDebug_def indexOf_def)

lemma isDebug_ex2: "\<not> isDebug [''electron'']"
  by (simp add: isDebug_def indexOf_def)

section \<open>Properties of the ready sequence\<close>

text \<open>
  C1. In the ready handler \<open>prepareEnvironment\<close> is called, and awaited, before any
  \<open>listen()\<close> call; every \<open>listen()\<close> call (ArcIdentity, window manager, prompts,
  update status, drive export) precedes the menu's \<open>build()\<close>; and \<open>build()\<close> precedes the
  session manager's \<open>start()\<close>. The order holds whatever becomes of the promise;
  \<open>prepareEnvironment\<close> is called once; when the promise is fulfilled or rejected with an
  Error object each of the calls is made exactly once; and while it is pending nothing
  is called after \<open>prepareEnvironment\<close>.
\<close>

theorem C1_ready_order:
  "(\<forall>l \<in> set listen_calls.
       all_before PrepareEnvironment l (fst (readyHandler args prepared)) \<and>
       all_before l MenuBuild (fst (readyHandler args prepared)))
   \<and> all_before MenuBuild SmStart (fst (readyHandler args prepared))
   \<and> count_list (fst (readyHandler args prepared)) PrepareEnvironment = 1
   \<and> (prepared = Fulfilled \<or> (\<exists>m. prepared = Rejected (ErrorObject m)) \<longrightarrow>
        (\<forall>l \<in> set listen_calls. count_list (fst (readyHandler args prepared)) l = 1) \<and>
        count_list (fst (readyHandler args prepared)) MenuBuild = 1 \<and>
        count_list (fst (readyHandler args prepared)) SmStart = 1)
   \<and> (prepared = Pending \<longrightarrow>
        fst (readyHandler args prepared) = [NewAppDefaults, PrepareEnvironment])"
proof (cases prepared)
  case Fulfilled
  then show ?thesis
    by (simp add: readyHandler_def ready_then_def listen_calls_def all_before_Cons all_before_Nil)
next
  case (Rejected cause)
  then show ?thesis
    by (cases cause)
       (simp_all add: readyHandler_def ready_catch_def ready_then_def listen_calls_def
          all_before_Cons all_before_Nil)
next
  case Pending
  then show ?thesis
    by (simp add: readyHandler_def listen_calls_def all_before_Cons all_before_Nil)
qed

theorem C1_ready_order_witness:
  "all_before PrepareEnvironment ArcIdentityListen (fst (readyHandler [''electron''] Fulfilled))
   \<and> all_before PrepareEnvironment WmListen (fst (readyHandler [''electron''] Fulfilled))
   \<and> all_before PrepareEnvironment PromptsListen (fst (readyHandler [''electron''] Fulfilled))
   \<and> all_before PrepareEnvironment UsListen (fst (readyHandler [''electron''] Fulfilled))
   \<and> all_before PrepareEnvironment GdriveListen (fst (readyHandler [''electron''] Fulfilled))
   \<and> all_before ArcIdentityListen MenuBuild (fst (readyHandler [''electron''] Fulfilled))
   \<and> all_before WmListen MenuBuild (fst (readyHandler [''electron''] Fulfilled))
   \<and> all_before PromptsListen MenuBuild (fst (readyHandler [''electron''] Fulfilled))
   \<and> all_before UsListen MenuBuild (fst (readyHandler [''electron''] Fulfilled))
   \<and> all_before GdriveListen MenuBuild (fst (readyHandler [''electron''] Fulfilled))
   \<and> all_before MenuBuild SmStart (fst (readyHandler [''electron''] Fulfilled))
   \<and> count_list (fst (readyHandler [''electron''] Fulfilled)) PrepareEnvironment = 1
   \<and> count_list (fst (readyHandler [''electron''] Fulfilled)) GdriveListen = 1
   \<and> count_list (fst (readyHandler [''electron''] Fulfilled)) MenuBuild = 1
   \<and> count_list (fst (readyHandler [''electron''] Fulfilled)) SmStart = 1
   \<and> count_list (fst (readyHandler [''electron'', ''--inspect'']
          (Rejected (ErrorObject ''EACCES'')))) SmStart = 1
   \<and> fst (readyHandler [''electron''] Pending) = [NewAppDefaults, PrepareEnvironment]"
  using C1_ready_order [of "[''electron'']" Fulfilled]
    C1_ready_order [of "[''electron'', ''--inspect'']" "Rejected (ErrorObject ''EACCES'')"]
    C1_ready_order [of "[''electron'']" Pending]
  by (simp add: listen_calls_def)

text \<open>
  C2. When \<open>prepareEnvironment\<close> rejects with an Error object, the ready handler logs
  the error's message and then the error object, as two log entries, and goes on with
  every step of the startup: the five \<open>listen()\<close> calls, the first window, the update
  checker unless the process is debugged, the menu and the session manager. The promise
  of the handler is fulfilled, and the trace holds nothing but these calls: no dialog
  is shown.
\<close>

theorem C2_prepare_failure_is_logged_and_startup_continues:
  "readyHandler args (Rejected (ErrorObject m)) =
     ([NewAppDefaults, PrepareEnvironment,
       LogError [Str ''Unable to prepare the environment.'', Str m],
       LogError [ErrorObject m],
       LogInfo [Str ''Application is now ready''],
       ArcIdentityListen, WmListen, PromptsListen, UsListen, GdriveListen,
       WmOpen None] @
      (if isDebug args then [] else [UsStart]) @
      [MenuBuild, SmStart], ReadyDone)"
  by (simp add: readyHandler_def ready_catch_def ready_then_def)

section \<open>Properties of the open-url handler\<close>

text \<open>
  C3. For the URL \<open>arc-file://drive/open/abc123\<close> the handler calls the window
  manager's \<open>open\<close> with exactly \<open>/request/drive/open/abc123\<close>; for every URL whose first
  segment after the 11-character prefix is not \<open>drive\<close> the window manager's \<open>open\<close> is
  never called.
\<close>

theorem C3_open_url_navigation:
  "openUrlHandler ''arc-file://drive/open/abc123'' =
     [LogInfo [Str ''arc-file protocol handles '', Str ''arc-file://drive/open/abc123''],
      PreventDefault, WmOpen (Some ''/request/drive/open/abc123'')]
   \<and> (hd (split CHR ''/'' (substr url 11)) \<noteq> ''drive'' \<longrightarrow>
        wm_open_calls (openUrlHandler url) = [])"
proof
  show "openUrlHandler ''arc-file://drive/open/abc123'' =
     [LogInfo [Str ''arc-file protocol handles '', Str ''arc-file://drive/open/abc123''],
      PreventDefault, WmOpen (Some ''/request/drive/open/abc123'')]"
    by (simp add: openUrlHandler_def substr_def nth_js_def to_string_def)
next
  show "hd (split CHR ''/'' (substr url 11)) \<noteq> ''drive'' \<longrightarrow>
        wm_open_calls (openUrlHandler url) = []"
    using split_not_Nil [of "CHR ''/''" "substr url 11"]
    by (auto simp add: openUrlHandler_def nth_js_def Let_def hd_conv_nth)
qed

theorem C3_open_url_navigation_witness:
  "hd (split CHR ''/'' (substr ''arc-file://unknown/x/y'' 11)) \<noteq> ''drive''
   \<and> wm_open_calls (openUrlHandler ''arc-file://unknown/x/y'') = []"
  using C3_open_url_navigation [of "''arc-file://unknown/x/y''"]
  by (simp add: substr_def)

text \<open>
  C4. For every URL given to the open-url handler, whether it decodes to a navigation
  or not, \<open>event.preventDefault()\<close> is called exactly once.
\<close>

theorem C4_prevent_default_once:
  "count_list (openUrlHandler url) PreventDefault = 1"
  by (simp add: openUrlHandler_def Let_def)

text \<open>
  C5. For every URL whose first segment after the prefix is \<open>drive\<close> and which has fewer
  than three segments, the handler throws nothing: a missing segment reads as
  \<open>undefined\<close>, the target is built all the same, with the text \<open>undefined\<close> in the
  place of each missing segment, and is passed to the window manager. The target is a
  function of the URL alone, so the same URL always gives the same target.
\<close>

theorem C5_short_drive_url_still_navigates:
  "hd (split CHR ''/'' (substr url 11)) = ''drive'' \<and>
   length (split CHR ''/'' (substr url 11)) < 3 \<longrightarrow>
   openUrlHandler url =
     [LogInfo [Str ''arc-file protocol handles '', Str url], PreventDefault,
      WmOpen (Some (''/request/drive/''
        @ (if length (split CHR ''/'' (substr url 11)) = 2
           then split CHR ''/'' (substr url 11) ! 1 else ''undefined'')
        @ ''/undefined''))]"
  using split_not_Nil [of "CHR ''/''" "substr url 11"]
  by (auto simp add: openUrlHandler_def nth_js_def Let_def hd_conv_nth to_string_def)

theorem C5_short_drive_url_still_navigates_witness:
  "hd (split CHR ''/'' (substr ''arc-file://drive/open'' 11)) = ''drive''
   \<and> length (split CHR ''/'' (substr ''arc-file://drive/open'' 11)) < 3
   \<and> openUrlHandler ''arc-file://drive/open'' =
     [LogInfo [Str ''arc-file protocol handles '', Str ''arc-file://drive/open''],
      PreventDefault, WmOpen (Some ''/request/drive/open/undefined'')]
   \<and> openUrlHandler ''arc-file://drive'' =
     [LogInfo [Str ''arc-file protocol handles '', Str ''arc-file://drive''],
      PreventDefault, WmOpen (Some ''/request/drive/undefined/undefined'')]"
  using C5_short_drive_url_still_navigates [of "''arc-file://drive/open''"]
    C5_short_drive_url_still_navigates [of "''arc-file://drive''"]
  by (simp add: substr_def)

section \<open>Properties of the menu handler\<close>

text \<open>
  C6. For each of the thirteen forwarded commands, routing \<open>application-<command>\<close>
  sends exactly one \<open>command\<close> event to the given window, with the command name as its
  payload, calls nothing else and leaves the world as it was.
\<close>

theorem C6_forwarded_commands:
  "cmd \<in> set [''open-saved'', ''open-history'', ''open-drive'', ''open-messages'',
               ''show-settings'', ''about'', ''open-license'', ''import-data'',
               ''export-data'', ''login-external-webservice'', ''open-cookie-manager'',
               ''open-hosts-editor'', ''open-themes''] \<Longrightarrow>
   menuHandler w (''application-'' @ cmd) win = (w, [WebContentsSend win ''command'' cmd])"
  by (auto simp add: menuHandler_def indexOf_zero_iff substr_def handleApplicationAction_def)

theorem C6_forwarded_commands_witness:
  "menuHandler \<lparr>url_of = (\<lambda>_. ''file:///app.html''), services = (\<lambda>_. None)\<rparr>
      ''application-open-cookie-manager'' 7 =
     (\<lparr>url_of = (\<lambda>_. ''file:///app.html''), services = (\<lambda>_. None)\<rparr>,
      [WebContentsSend 7 ''command'' ''open-cookie-manager''])"
  using C6_forwarded_commands [of "''open-cookie-manager''"
      "\<lparr>url_of = (\<lambda>_. ''file:///app.html''), services = (\<lambda>_. None)\<rparr>" 7]
  by simp

text \<open>
  C7, as amended. An action that begins with neither \<open>application\<close> nor \<open>request\<close>, and
  an action that begins with \<open>application\<close> and whose remainder after its first twelve
  characters is no case label of \<open>_handleApplicationAction\<close> (so every
  \<open>application-<command>\<close> with an unknown command), does nothing: no event is sent,
  nothing is called and the world is as it was. The test is on the first characters of
  the action, not on the text before its first dash.
\<close>

theorem C7_unrouted_actions_do_nothing:
  "(\<not> prefix ''application'' action \<and> \<not> prefix ''request'' action \<longrightarrow>
      menuHandler w action win = (w, []))
   \<and> (prefix ''application'' action \<and> substr action 12 \<notin> set application_action_table \<longrightarrow>
      menuHandler w action win = (w, []))
   \<and> (cmd \<notin> set application_action_table \<longrightarrow>
      menuHandler w (''application-'' @ cmd) win = (w, []))"
  by (auto simp add: menuHandler_def indexOf_zero_iff substr_def handleApplicationAction_def
      application_action_table_def)

text \<open>C7 at \<open>window-reload\<close> and at \<open>application-open-workspace\<close>.\<close>

theorem C7_unrouted_actions_do_nothing_witness:
  "\<not> prefix ''application'' ''window-reload'' \<and> \<not> prefix ''request'' ''window-reload''
   \<and> menuHandler \<lparr>url_of = (\<lambda>_. ''file:///app.html''), services = (\<lambda>_. None)\<rparr>
        ''window-reload'' 7 =
       (\<lparr>url_of = (\<lambda>_. ''file:///app.html''), services = (\<lambda>_. None)\<rparr>, [])
   \<and> prefix ''application'' ''application-open-workspace''
   \<and> substr ''application-open-workspace'' 12 \<notin> set application_action_table
   \<and> ''open-workspace'' \<notin> set application_action_table
   \<and> menuHandler \<lparr>url_of = (\<lambda>_. ''file:///app.html''), services = (\<lambda>_. None)\<rparr>
        ''application-open-workspace'' 7 =
       (\<lparr>url_of = (\<lambda>_. ''file:///app.html''), services = (\<lambda>_. None)\<rparr>, [])"
  using C7_unrouted_actions_do_nothing [of "''window-reload''"
       "\<lparr>url_of = (\<lambda>_. ''file:///app.html''), services = (\<lambda>_. None)\<rparr>" 7 "''open-workspace''"]
    C7_unrouted_actions_do_nothing [of "''application-open-workspace''"
       "\<lparr>url_of = (\<lambda>_. ''file:///app.html''), services = (\<lambda>_. None)\<rparr>" 7 "''open-workspace''"]
  by (simp add: substr_def application_action_table_def)

text \<open>
  C7 as stated fails: the namespace of \<open>requests-foo\<close>, the text before its first dash, is
  \<open>requests\<close>, neither \<open>application\<close> nor \<open>request\<close>, and yet the menu handler sends the
  window a \<open>request-action\<close> event with the payload \<open>-foo\<close>.
\<close>

theorem C7_namespace_counterexample:
  "spec_namespace ''requests-foo'' = ''requests''
   \<and> spec_namespace ''requests-foo'' \<noteq> ''application''
   \<and> spec_namespace ''requests-foo'' \<noteq> ''request''
   \<and> menuHandler \<lparr>url_of = (\<lambda>_. ''file:///app.html''), services = (\<lambda>_. None)\<rparr>
        ''requests-foo'' 7 =
       (\<lparr>url_of = (\<lambda>_. ''file:///app.html''), services = (\<lambda>_. None)\<rparr>,
        [WebContentsSend 7 ''request-action'' ''-foo''])"
  by (simp add: spec_namespace_def menuHandler_def indexOf_zero_iff substr_def)

text \<open>
  C10, as amended. The menu handler tests bare prefixes and strips a fixed number of
  characters, with no look at the separator: every action that begins with
  \<open>application\<close> has its first twelve characters dropped and the rest dispatched through
  \<open>_handleApplicationAction\<close>, so \<open>application\<close> itself dispatches the empty command and
  does nothing, and \<open>applicationXquit\<close> dispatches \<open>quit\<close> and quits the application; every
  other action that begins with \<open>request\<close> has its first eight characters dropped and the
  rest sent as the payload of a \<open>request-action\<close> event, whatever the characters
  that follow \<open>request\<close>.
\<close>

theorem C10_prefix_dispatch:
  "(prefix ''application'' action \<longrightarrow>
      menuHandler w action win = handleApplicationAction w (drop 12 action) win)
   \<and> (\<not> prefix ''application'' action \<and> prefix ''request'' action \<longrightarrow>
      menuHandler w action win = (w, [WebContentsSend win ''request-action'' (drop 8 action)]))
   \<and> menuHandler w ''application'' win = (w, [])
   \<and> menuHandler w ''applicationXquit'' win = (w, [AppQuit])"
  by (simp add: menuHandler_def indexOf_zero_iff substr_def handleApplicationAction_def)

text \<open>C10 at \<open>applicationXabout\<close> and at \<open>requestXsave\<close>.\<close>

theorem C10_prefix_dispatch_witness:
  "prefix ''application'' ''applicationXabout''
   \<and> menuHandler \<lparr>url_of = (\<lambda>_. ''file:///app.html''), services = (\<lambda>_. None)\<rparr>
        ''applicationXabout'' 7 =
      handleApplicationAction \<lparr>url_of = (\<lambda>_. ''file:///app.html''), services = (\<lambda>_. None)\<rparr>
        ''about'' 7
   \<and> \<not> prefix ''application'' ''requestXsave'' \<and> prefix ''request'' ''requestXsave''
   \<and> menuHandler \<lparr>url_of = (\<lambda>_. ''file:///app.html''), services = (\<lambda>_. None)\<rparr>
        ''requestXsave'' 7 =
       (\<lparr>url_of = (\<lambda>_. ''file:///app.html''), services = (\<lambda>_. None)\<rparr>,
        [WebContentsSend 7 ''request-action'' ''save''])"
  using C10_prefix_dispatch [of "''applicationXabout''"
       "\<lparr>url_of = (\<lambda>_. ''file:///app.html''), services = (\<lambda>_. None)\<rparr>" 7]
    C10_prefix_dispatch [of "''requestXsave''"
       "\<lparr>url_of = (\<lambda>_. ''file:///app.html''), services = (\<lambda>_. None)\<rparr>" 7]
  by simp

text \<open>
  C10 as stated fails at its own example: the first twelve characters of
  \<open>applicationXquit\<close> are \<open>applicationX\<close>, so the command dispatched is \<open>quit\<close>, not
  \<open>uit\<close>, and the application quits where the command \<open>uit\<close> would have done nothing.
\<close>

theorem C10_applicationXquit_counterexample:
  "prefix ''application'' ''applicationXquit''
   \<and> substr ''applicationXquit'' 12 = ''quit''
   \<and> substr ''applicationXquit'' 12 \<noteq> ''uit''
   \<and> menuHandler \<lparr>url_of = (\<lambda>_. ''file:///app.html''), services = (\<lambda>_. None)\<rparr>
        ''applicationXquit'' 7 =
       (\<lparr>url_of = (\<lambda>_. ''file:///app.html''), services = (\<lambda>_. None)\<rparr>, [AppQuit])
   \<and> menuHandler \<lparr>url_of = (\<lambda>_. ''file:///app.html''), services = (\<lambda>_. None)\<rparr>
        ''applicationXquit'' 7 \<noteq>
       handleApplicationAction \<lparr>url_of = (\<lambda>_. ''file:///app.html''), services = (\<lambda>_. None)\<rparr>
        ''uit'' 7"
  by (simp add: menuHandler_def indexOf_zero_iff substr_def handleApplicationAction_def)

text \<open>
  C8, as amended. The find action: when the window shows the search UI nothing happens
  beyond the reading of its URL; when the window has a service that is opened, the
  service is focused, not reopened, and none is constructed; when the window has a
  service that is not opened, that service is opened and none is constructed; when the
  window has no service, one is constructed and opened. Two find actions in a row on a
  window that does not show the search UI construct one service when the window had
  none, and none otherwise, and the second of them ends in \<open>focus()\<close>. The branches are
  those of \<open>_handleApplicationAction\<close>; the registry they read and change is the model of
  the Content Search Service.
\<close>

theorem C8_find_action:
  "(indexOf (url_of w win) ''search-bar'' \<noteq> - 1 \<longrightarrow>
      handleApplicationAction w ''find'' win = (w, [WebContentsGetURL win]))
   \<and> (indexOf (url_of w win) ''search-bar'' = - 1 \<and> getService w win = Some True \<longrightarrow>
      handleApplicationAction w ''find'' win =
        (w, [WebContentsGetURL win, GetService win, SrvIsOpened win, SrvFocus win]))
   \<and> (indexOf (url_of w win) ''search-bar'' = - 1 \<and> getService w win = Some False \<longrightarrow>
      handleApplicationAction w ''find'' win =
        (srvOpen w win,
         [WebContentsGetURL win, GetService win, SrvIsOpened win, SrvOpen win]))
   \<and> (indexOf (url_of w win) ''search-bar'' = - 1 \<and> getService w win = None \<longrightarrow>
      handleApplicationAction w ''find'' win =
        (srvOpen (newContentSearchService w win) win,
         [WebContentsGetURL win, GetService win, NewContentSearchService win, SrvOpen win]))
   \<and> (indexOf (url_of w win) ''search-bar'' = - 1 \<longrightarrow>
      count_list (snd (run env w [MenuAction ''application-find'' win,
                                  MenuAction ''application-find'' win]))
        (NewContentSearchService win) = (if getService w win = None then 1 else 0)
      \<and> (\<exists>t. snd (run env w [MenuAction ''application-find'' win,
                               MenuAction ''application-find'' win]) =
              t @ [WebContentsGetURL win, GetService win, SrvIsOpened win, SrvFocus win]))"
  using find_search_ui [of w win] find_opened [of w win] find_closed [of w win]
    find_absent [of w win] find_twice [of w win env]
  by blast

text \<open>C8 at a window showing the search UI, and at a window with an opened, a closed and no
  service.\<close>

theorem C8_find_action_witness:
  "indexOf (url_of \<lparr>url_of = (\<lambda>_. ''file:///search-bar.html''),
                    services = (\<lambda>_. None)\<rparr> 7) ''search-bar'' \<noteq> - 1
   \<and> handleApplicationAction
        \<lparr>url_of = (\<lambda>_. ''file:///search-bar.html''), services = (\<lambda>_. None)\<rparr> ''find'' 7 =
       (\<lparr>url_of = (\<lambda>_. ''file:///search-bar.html''), services = (\<lambda>_. None)\<rparr>,
        [WebContentsGetURL 7])
   \<and> indexOf (url_of \<lparr>url_of = (\<lambda>_. ''file:///app.html''),
                    services = (\<lambda>_. None)(7 \<mapsto> True)\<rparr> 7) ''search-bar'' = - 1
   \<and> getService \<lparr>url_of = (\<lambda>_. ''file:///app.html''),
                   services = (\<lambda>_. None)(7 \<mapsto> True)\<rparr> 7 = Some True
   \<and> snd (handleApplicationAction
        \<lparr>url_of = (\<lambda>_. ''file:///app.html''), services = (\<lambda>_. None)(7 \<mapsto> True)\<rparr>
        ''find'' 7) =
       [WebContentsGetURL 7, GetService 7, SrvIsOpened 7, SrvFocus 7]
   \<and> getService \<lparr>url_of = (\<lambda>_. ''file:///app.html''),
                   services = (\<lambda>_. None)(7 \<mapsto> False)\<rparr> 7 = Some False
   \<and> snd (handleApplicationAction
        \<lparr>url_of = (\<lambda>_. ''file:///app.html''), services = (\<lambda>_. None)(7 \<mapsto> False)\<rparr>
        ''find'' 7) =
       [WebContentsGetURL 7, GetService 7, SrvIsOpened 7, SrvOpen 7]
   \<and> getService \<lparr>url_of = (\<lambda>_. ''file:///app.html''), services = (\<lambda>_. None)\<rparr> 7 = None
   \<and> snd (handleApplicationAction
        \<lparr>url_of = (\<lambda>_. ''file:///app.html''), services = (\<lambda>_. None)\<rparr> ''find'' 7) =
       [WebContentsGetURL 7, GetService 7, NewContentSearchService 7, SrvOpen 7]
   \<and> count_list
        (snd (run \<lparr>argv = [''electron''], platform = ''linux'', node_env = None\<rparr>
                \<lparr>url_of = (\<lambda>_. ''file:///app.html''), services = (\<lambda>_. None)\<rparr>
                [MenuAction ''application-find'' 7, MenuAction ''application-find'' 7]))
        (NewContentSearchService 7) = 1"
  using
    C8_find_action [of "\<lparr>url_of = (\<lambda>_. ''file:///search-bar.html''), services = (\<lambda>_. None)\<rparr>" 7]
    C8_find_action [of "\<lparr>url_of = (\<lambda>_. ''file:///app.html''), services = (\<lambda>_. None)(7 \<mapsto> True)\<rparr>" 7]
    C8_find_action [of "\<lparr>url_of = (\<lambda>_. ''file:///app.html''), services = (\<lambda>_. None)(7 \<mapsto> False)\<rparr>" 7]
    C8_find_action [of "\<lparr>url_of = (\<lambda>_. ''file:///app.html''), services = (\<lambda>_. None)\<rparr>" 7
       "\<lparr>argv = [''electron''], platform = ''linux'', node_env = None\<rparr>"]
  by (simp add: getService_def indexOf_def)

text \<open>
  C8 as stated fails where it says that a new instance is created whenever the window
  has no opened service: for a window whose service exists and is closed, the service
  is opened again and no instance is constructed.
\<close>

theorem C8_closed_service_counterexample:
  "indexOf (url_of \<lparr>url_of = (\<lambda>_. ''file:///app.html''),
                    services = (\<lambda>_. None)(7 \<mapsto> False)\<rparr> 7) ''search-bar'' = - 1
   \<and> getService \<lparr>url_of = (\<lambda>_. ''file:///app.html''),
                   services = (\<lambda>_. None)(7 \<mapsto> False)\<rparr> 7 = Some False
   \<and> snd (handleApplicationAction
        \<lparr>url_of = (\<lambda>_. ''file:///app.html''), services = (\<lambda>_. None)(7 \<mapsto> False)\<rparr>
        ''find'' 7) =
       [WebContentsGetURL 7, GetService 7, SrvIsOpened 7, SrvOpen 7]
   \<and> NewContentSearchService 7 \<notin> set (snd (handleApplicationAction
        \<lparr>url_of = (\<lambda>_. ''file:///app.html''), services = (\<lambda>_. None)(7 \<mapsto> False)\<rparr>
        ''find'' 7))"
  by (simp add: handleApplicationAction_def getService_def indexOf_def)

section \<open>Properties of the debugger check\<close>

text \<open>
  C9, as amended. \<open>isDebug\<close> gates two things: the start of the update checker in the
  ready sequence and, when the module is loaded, the assignment of the application to
  \<open>global.arcApp\<close>. Take two processes of the same platform and \<open>NODE_ENV\<close> whose
  arguments the startup option parser turns into the same options, and any turns of
  the event loop, with other listeners running between the call of
  \<open>prepareEnvironment()\<close> and its callbacks or not: the worlds they leave are the same,
  and their traces are the same once these two calls are left out; they are the same
  altogether when \<open>isDebug\<close> agrees on the arguments. The gates are exact: the update
  checker is started once in every turn in which the \<open>.then\<close> callback runs when
  \<open>isDebug\<close> is false, between the opening of the first window and the building of the
  menu, and never when it is true; the global is assigned once when \<open>isDebug\<close> is true
  and never when it is false.
\<close>

theorem C9_debug_flag_frame:
  "(platform env = platform env' \<and> node_env env = node_env env' \<and>
    parseOptions (argv env) = parseOptions (argv env') \<longrightarrow>
      fst (program parseOptions env w es) = fst (program parseOptions env' w es)
      \<and> filter (\<lambda>e. e \<noteq> UsStart \<and> e \<noteq> SetGlobalArcApp) (snd (program parseOptions env w es)) =
        filter (\<lambda>e. e \<noteq> UsStart \<and> e \<noteq> SetGlobalArcApp) (snd (program parseOptions env' w es))
      \<and> (isDebug (argv env) = isDebug (argv env') \<longrightarrow>
           program parseOptions env w es = program parseOptions env' w es))
   \<and> count_list (snd (program parseOptions env w es)) UsStart =
       (if isDebug (argv env) then 0 else ready_sequences es)
   \<and> count_list (snd (program parseOptions env w es)) SetGlobalArcApp =
       (if isDebug (argv env) then 1 else 0)
   \<and> ready_callbacks (argv env) Fulfilled =
       [LogInfo [Str ''Application is now ready''],
        ArcIdentityListen, WmListen, PromptsListen, UsListen, GdriveListen,
        WmOpen None] @
       (if isDebug (argv env) then [] else [UsStart]) @
       [MenuBuild, SmStart]"
proof -
  have frame: "fst (program parseOptions env w es) = fst (program parseOptions env' w es)
      \<and> filter (\<lambda>e. e \<noteq> UsStart \<and> e \<noteq> SetGlobalArcApp) (snd (program parseOptions env w es)) =
        filter (\<lambda>e. e \<noteq> UsStart \<and> e \<noteq> SetGlobalArcApp) (snd (program parseOptions env' w es))
      \<and> (isDebug (argv env) = isDebug (argv env') \<longrightarrow>
           program parseOptions env w es = program parseOptions env' w es)"
    if p: "platform env = platform env'" and n: "node_env env = node_env env'"
      and o: "parseOptions (argv env) = parseOptions (argv env')"
  proof -
    have 1: "fst (program parseOptions env w es) = fst (program parseOptions env' w es)"
      using run_frame [OF p, of w es] by (simp add: program_def split_beta)
    have 2: "filter (\<lambda>e. e \<noteq> UsStart \<and> e \<noteq> SetGlobalArcApp) (snd (program parseOptions env w es)) =
        filter (\<lambda>e. e \<noteq> UsStart \<and> e \<noteq> SetGlobalArcApp) (snd (program parseOptions env' w es))"
      using run_frame [OF p, of w es] module_load_frame [OF n o]
      by (simp add: program_def split_beta)
    have 3: "program parseOptions env w es = program parseOptions env' w es"
      if d: "isDebug (argv env) = isDebug (argv env')"
      using run_same_debug [OF p d, of w es] module_load_same_debug [OF n o d]
      by (simp add: program_def)
    from 1 2 3 show ?thesis by blast
  qed
  have starts: "count_list (snd (program parseOptions env w es)) UsStart =
       (if isDebug (argv env) then 0 else ready_sequences es)"
    using run_count [of env w es] module_load_count [of parseOptions env]
    by (simp add: program_def split_beta)
  have global: "count_list (snd (program parseOptions env w es)) SetGlobalArcApp =
       (if isDebug (argv env) then 1 else 0)"
    using run_count [of env w es] module_load_count [of parseOptions env]
    by (simp add: program_def split_beta)
  have place: "ready_callbacks (argv env) Fulfilled =
       [LogInfo [Str ''Application is now ready''],
        ArcIdentityListen, WmListen, PromptsListen, UsListen, GdriveListen,
        WmOpen None] @
       (if isDebug (argv env) then [] else [UsStart]) @
       [MenuBuild, SmStart]"
    by (simp add: ready_callbacks_def ready_then_def)
  from frame starts global place show ?thesis by blast
qed

text \<open>C9 for a process started with \<open>--inspect=9229\<close> and one started without, with an
  open-url event between the call of \<open>prepareEnvironment()\<close> and its callbacks.\<close>

theorem C9_debug_flag_frame_witness:
  "platform inspected_process = platform plain_process
   \<and> node_env inspected_process = node_env plain_process
   \<and> dev_parser (argv inspected_process) = dev_parser (argv plain_process)
   \<and> filter (\<lambda>e. e \<noteq> UsStart \<and> e \<noteq> SetGlobalArcApp)
       (snd (program dev_parser inspected_process app_world interleaved_turns))
     = filter (\<lambda>e. e \<noteq> UsStart \<and> e \<noteq> SetGlobalArcApp)
       (snd (program dev_parser plain_process app_world interleaved_turns))
   \<and> count_list
       (snd (program dev_parser inspected_process app_world interleaved_turns)) UsStart = 0
   \<and> count_list
       (snd (program dev_parser plain_process app_world interleaved_turns)) UsStart = 1
   \<and> count_list
       (snd (program dev_parser inspected_process app_world interleaved_turns))
       SetGlobalArcApp = 1
   \<and> count_list
       (snd (program dev_parser plain_process app_world interleaved_turns))
       SetGlobalArcApp = 0"
  using C9_debug_flag_frame
    [of inspected_process plain_process dev_parser app_world interleaved_turns]
    C9_debug_flag_frame
    [of plain_process inspected_process dev_parser app_world interleaved_turns]
    isDebug_ex1 isDebug_ex2
  by (simp add: then_runs_def)

text \<open>
  C9 as stated fails: the two processes have the same platform, \<open>NODE_ENV\<close> and options,
  and with the update checker's start left out of both traces the one started with
  \<open>--inspect=9229\<close> still differs from the one started without, as soon as the module
  is loaded: it assigns \<open>global.arcApp\<close>.
\<close>

theorem C9_global_counterexample:
  "isDebug (argv inspected_process) \<and> \<not> isDebug (argv plain_process)
   \<and> platform inspected_process = platform plain_process
   \<and> node_env inspected_process = node_env plain_process
   \<and> dev_parser (argv inspected_process) = dev_parser (argv plain_process)
   \<and> filter (\<lambda>e. e \<noteq> UsStart)
       (snd (program dev_parser inspected_process app_world []))
     \<noteq> filter (\<lambda>e. e \<noteq> UsStart)
       (snd (program dev_parser plain_process app_world []))
   \<and> SetGlobalArcApp \<in> set (module_load dev_parser inspected_process)
   \<and> SetGlobalArcApp \<notin> set (module_load dev_parser plain_process)"
  using isDebug_ex1 isDebug_ex2
  by (simp add: program_def module_load_def arc_constructor_def attachListeners_def)

end
